theory Spec2Isabelle
  imports Main "HOL-Library.Char_ord" "HOL-Library.List_Lexorder"
begin

section \<open>FindCandidateWords: the notebook as functions\<close>

text \<open>
  The notebook \<^verbatim>\<open>FindCandidateWords.ipynb\<close> is a straight-line script: each cell binds a
  variable from the variables bound above it. Every cell becomes one function here, named
  after the variable it binds, taking the variables it reads.

  A letter is a \<^typ>\<open>char\<close>, a word a \<^typ>\<open>string\<close>; a position is an \<^typ>\<open>int\<close>, since
  the notebook writes \<^verbatim>\<open>-1\<close> for "position unknown" and tests the sign.
\<close>

type_synonym letter_loc = "char \<times> int"

subsection \<open>The two library iterators\<close>

text \<open>
  \<^verbatim>\<open>itertools.combinations(iterable, r)\<close>: the \<open>r\<close>-length subsequences of the input, in
  lexicographic order of the positions they are taken from.
\<close>

fun combinations :: "'a list \<Rightarrow> nat \<Rightarrow> 'a list list" where
  "combinations xs 0 = [[]]"
| "combinations [] (Suc r) = []"
| "combinations (x # xs) (Suc r) =
     map ((#) x) (combinations xs r) @ combinations xs (Suc r)"

text \<open>
  \<^verbatim>\<open>itertools.permutations(iterable, r)\<close>: the \<open>r\<close>-length arrangements of the input's
  elements, in lexicographic order of the positions they are taken from. \<open>picks xs\<close> lists
  every way to take one element out of \<open>xs\<close>, with what is left, in input order.
  The notebook calls \<^verbatim>\<open>itertools.permutations(x)\<close>, where \<open>r\<close> defaults to the length.
\<close>

fun picks :: "'a list \<Rightarrow> ('a \<times> 'a list) list" where
  "picks [] = []"
| "picks (x # xs) = (x, xs) # map (\<lambda>yz. (fst yz, x # snd yz)) (picks xs)"

fun permutations_r :: "nat \<Rightarrow> 'a list \<Rightarrow> 'a list list" where
  "permutations_r 0 xs = [[]]"
| "permutations_r (Suc r) xs =
     concat (map (\<lambda>yz. map ((#) (fst yz)) (permutations_r r (snd yz))) (picks xs))"

definition permutations :: "'a list \<Rightarrow> 'a list list" where
  "permutations xs = permutations_r (length xs) xs"

text \<open>\<^verbatim>\<open>sep.join(xs)\<close>.\<close>

fun join :: "string \<Rightarrow> string list \<Rightarrow> string" where
  "join sep [] = []"
| "join sep [x] = x"
| "join sep (x # y # ys) = x @ sep @ join sep (y # ys)"

subsection \<open>Splitting the known letters\<close>

text \<open>
  \<^verbatim>\<open>fixed_letters = sorted([l for l in known_letters_loc if l[1] >= 0], key=lambda k: k[1])\<close>.
  Python's \<^verbatim>\<open>sorted\<close> is stable, as \<^const>\<open>sort_key\<close> is.
\<close>

definition fixed_letters_of :: "letter_loc list \<Rightarrow> letter_loc list" where
  "fixed_letters_of known_letters_loc =
     sort_key snd (filter (\<lambda>l. snd l \<ge> 0) known_letters_loc)"

text \<open>
  \<^verbatim>\<open>dict_letters = {x[1]: x[0] for x in fixed_letters}\<close>: a later entry for the same
  position replaces an earlier one.
\<close>

definition dict_letters_of :: "letter_loc list \<Rightarrow> (int \<rightharpoonup> char)" where
  "dict_letters_of fixed_letters =
     fold (\<lambda>x m. m(snd x \<mapsto> fst x)) fixed_letters Map.empty"

text \<open>
  \<^verbatim>\<open>known_pattern = [dict_letters[i] if i in dict_letters.keys() else '?'
                    for i in range(word_length)]\<close>
\<close>

definition known_pattern_of :: "nat \<Rightarrow> (int \<rightharpoonup> char) \<Rightarrow> string" where
  "known_pattern_of word_length dict_letters =
     map (\<lambda>i. case dict_letters (int i) of Some c \<Rightarrow> c | None \<Rightarrow> CHR ''?'')
       [0..<word_length]"

text \<open>
  \<^verbatim>\<open>unknown_pos = [i for i in range(word_length) if i not in dict_letters.keys()]\<close>
\<close>

definition unknown_pos_of :: "nat \<Rightarrow> (int \<rightharpoonup> char) \<Rightarrow> nat list" where
  "unknown_pos_of word_length dict_letters =
     filter (\<lambda>i. dict_letters (int i) = None) [0..<word_length]"

text \<open>
  \<^verbatim>\<open>unknown_letters = [x[0] for x in sorted([l for l in known_letters_loc if l[1] < 0],
                                             key=lambda k: k[1])]\<close>
\<close>

definition unknown_letters_of :: "letter_loc list \<Rightarrow> char list" where
  "unknown_letters_of known_letters_loc =
     map fst (sort_key snd (filter (\<lambda>l. snd l < 0) known_letters_loc))"

subsection \<open>Building the patterns\<close>

text \<open>
  \<^verbatim>\<open>unknown_combos = list(itertools.combinations(unknown_pos, len(unknown_letters)))\<close>
\<close>

definition unknown_combos_of :: "nat list \<Rightarrow> char list \<Rightarrow> nat list list" where
  "unknown_combos_of unknown_pos unknown_letters =
     combinations unknown_pos (length unknown_letters)"

text \<open>
  \<^verbatim>\<open>perms_unknown_combos = [list(itertools.permutations(x)) for x in unknown_combos]\<close>
\<close>

definition perms_unknown_combos_of :: "nat list list \<Rightarrow> nat list list list" where
  "perms_unknown_combos_of unknown_combos = map permutations unknown_combos"

text \<open>
  The innermost loop of the pattern cell, on a copy of \<^verbatim>\<open>known_pattern\<close>:
  \<^verbatim>\<open>for x in zip(perms_unknown_combos[c][p], unknown_letters): tmp_pattern[x[0]] = x[1]\<close>.
  Every index written comes from \<^verbatim>\<open>unknown_pos\<close>, so it is inside the pattern
  (lemma \<open>unknown_pos_in_range\<close> below) and the assignment never raises.
  \<^verbatim>\<open>''.join(tmp_pattern)\<close> of a list of letters is the list of letters itself.
\<close>

definition tmp_pattern_of :: "string \<Rightarrow> nat list \<Rightarrow> char list \<Rightarrow> string" where
  "tmp_pattern_of known_pattern perm unknown_letters =
     fold (\<lambda>x t. t[fst x := snd x]) (zip perm unknown_letters) known_pattern"

text \<open>The two outer loops of the pattern cell append one pattern per permutation.\<close>

definition build_patterns :: "string \<Rightarrow> char list \<Rightarrow> nat list list list \<Rightarrow> string list" where
  "build_patterns known_pattern unknown_letters perms_unknown_combos =
     concat (map (\<lambda>perms. map (\<lambda>p. tmp_pattern_of known_pattern p unknown_letters) perms)
       perms_unknown_combos)"

text \<open>The cells from \<^verbatim>\<open>fixed_letters\<close> to \<^verbatim>\<open>known_patterns\<close>, in sequence.\<close>

definition known_patterns_of :: "nat \<Rightarrow> letter_loc list \<Rightarrow> string list" where
  "known_patterns_of word_length known_letters_loc =
     (let fixed_letters = fixed_letters_of known_letters_loc;
          dict_letters = dict_letters_of fixed_letters;
          known_pattern = known_pattern_of word_length dict_letters;
          unknown_pos = unknown_pos_of word_length dict_letters;
          unknown_letters = unknown_letters_of known_letters_loc;
          unknown_combos = unknown_combos_of unknown_pos unknown_letters;
          perms_unknown_combos = perms_unknown_combos_of unknown_combos
      in build_patterns known_pattern unknown_letters perms_unknown_combos)"

subsection \<open>Allowed letters\<close>

text \<open>
  \<^verbatim>\<open>known_letters = [l[0] for l in known_letters_loc]\<close> and
  \<^verbatim>\<open>avail_letters.extend(known_letters)\<close>.
\<close>

definition known_letters_of :: "letter_loc list \<Rightarrow> char list" where
  "known_letters_of known_letters_loc = map fst known_letters_loc"

definition avail_letters_of :: "char list \<Rightarrow> letter_loc list \<Rightarrow> char list" where
  "avail_letters_of avail_letters known_letters_loc =
     avail_letters @ known_letters_of known_letters_loc"

subsection \<open>Querying the word service\<close>

text \<open>
  What can stop a run. The notebook catches nothing: a request that fails
  (\<^verbatim>\<open>requests.get\<close>, \<^verbatim>\<open>json.loads\<close>) ends the run, as do numpy's errors.
\<close>

datatype error = LookupTransportError | ValueError | IndexError

text \<open>
  The word service is a parameter: \<open>lookup p\<close> is the list of the \<^verbatim>\<open>'word'\<close> fields of the
  response to pattern \<open>p\<close>, or \<open>None\<close> when the request fails. The loop keeps the words of
  the right length:
  \<^verbatim>\<open>good_words = [w['word'] for w in words if len(w['word'])==word_length]\<close>,
  \<^verbatim>\<open>if len(good_words) > 0: candidate_words.extend(good_words)\<close>.
\<close>

fun candidate_words_loop ::
  "(string \<Rightarrow> string list option) \<Rightarrow> nat \<Rightarrow> string list \<Rightarrow> string list \<Rightarrow> error + string list"
where
  "candidate_words_loop lookup word_length [] candidate_words = Inr candidate_words"
| "candidate_words_loop lookup word_length (p # ps) candidate_words =
     (case lookup p of
        None \<Rightarrow> Inl LookupTransportError
      | Some words \<Rightarrow>
          (let good_words = filter (\<lambda>w. length w = word_length) words
           in candidate_words_loop lookup word_length ps
                (if length good_words > 0 then candidate_words @ good_words
                 else candidate_words)))"

definition candidate_words_of ::
  "(string \<Rightarrow> string list option) \<Rightarrow> nat \<Rightarrow> string list \<Rightarrow> error + string list"
where
  "candidate_words_of lookup word_length known_patterns =
     candidate_words_loop lookup word_length known_patterns []"

subsection \<open>Filtering the candidates\<close>

text \<open>
  \<^verbatim>\<open>candidate_arr = np.unique(np.array([list(w) for w in candidate_words]), axis=0)\<close>.
  An array is modelled by the list of its rows. \<^verbatim>\<open>np.array\<close> of rows of unequal lengths is
  no two-dimensional array and the call raises; of no rows, it is an empty array, which
  \<^verbatim>\<open>np.unique\<close> returns empty. Otherwise \<^verbatim>\<open>np.unique(_, axis=0)\<close> returns the distinct
  rows, sorted: rows of equal length compared column by column, a letter by its code.
\<close>

definition candidate_arr_of :: "string list \<Rightarrow> error + string list" where
  "candidate_arr_of candidate_words =
     (if \<forall>w \<in> set candidate_words. length w = length (hd candidate_words)
      then Inr (sort (remdups candidate_words))
      else Inl ValueError)"

text \<open>
  \<^verbatim>\<open>filtered_candidate_arr = np.array([x for x in candidate_arr.tolist()
       if len(set(x).difference(set(avail_letters))) == 0])\<close>
\<close>

definition filtered_candidate_arr_of :: "char list \<Rightarrow> string list \<Rightarrow> string list" where
  "filtered_candidate_arr_of avail_letters candidate_arr =
     filter (\<lambda>x. card (set x - set avail_letters) = 0) candidate_arr"

text \<open>
  numpy's index into an axis of \<open>n\<close> entries: a negative index counts from the end, an
  index outside \<open>[-n, n)\<close> raises.
\<close>

definition axis_index :: "nat \<Rightarrow> int \<Rightarrow> nat option" where
  "axis_index n i =
     (if 0 \<le> i \<and> i < int n then Some (nat i)
      else if - int n \<le> i \<and> i < 0 then Some (nat (int n + i))
      else None)"

text \<open>
  The loop
  \<^verbatim>\<open>for f in fixed_letters:
      filtered_candidate_arr = filtered_candidate_arr[
          np.argwhere(filtered_candidate_arr[:, f[1]] == f[0]).reshape(1, -1)[0]]\<close>
  on an array of \<open>ncols\<close> columns: the rows whose column \<^verbatim>\<open>f[1]\<close> holds \<^verbatim>\<open>f[0]\<close>, in
  order. The column index is checked even when no row is left.
\<close>

fun fixed_filter :: "nat \<Rightarrow> letter_loc list \<Rightarrow> string list \<Rightarrow> error + string list" where
  "fixed_filter ncols [] arr = Inr arr"
| "fixed_filter ncols (f # fs) arr =
     (case axis_index ncols (snd f) of
        None \<Rightarrow> Inl IndexError
      | Some j \<Rightarrow> fixed_filter ncols fs (filter (\<lambda>row. row ! j = fst f) arr))"

text \<open>\<^verbatim>\<open>f'No words found containing the letters {", ".join(avail_letters)}'\<close>\<close>

definition no_words_message :: "char list \<Rightarrow> string" where
  "no_words_message avail_letters =
     ''No words found containing the letters '' @ join '', '' (map (\<lambda>c. [c]) avail_letters)"

text \<open>
  What the last cell prints: the message, or \<^verbatim>\<open>list_candidate_words\<close>, one word a line.
\<close>

datatype printed = NoWordsFound string | CandidateWords "string list"

text \<open>
  The last cell:
  \<^verbatim>\<open>if len(filtered_candidate_arr) < 1:
      print(f'No words found containing the letters {", ".join(avail_letters)}')
  else:
      list_candidate_words = [''.join(l) for l in filtered_candidate_arr]
      for f in fixed_letters:
          filtered_candidate_arr = filtered_candidate_arr[...]
      print('\n'.join(list_candidate_words))\<close>
  It returns what is printed together with the final value of
  \<^verbatim>\<open>filtered_candidate_arr\<close>. \<^verbatim>\<open>list_candidate_words\<close> is bound before the loop runs.
  In the second branch the array has a row, and its column count is that row's length.
\<close>

definition report ::
  "letter_loc list \<Rightarrow> char list \<Rightarrow> string list \<Rightarrow> error + (printed \<times> string list)"
where
  "report fixed_letters avail_letters filtered_candidate_arr =
     (if length filtered_candidate_arr < 1
      then Inr (NoWordsFound (no_words_message avail_letters), filtered_candidate_arr)
      else
        (let list_candidate_words = filtered_candidate_arr
         in case fixed_filter (length (hd filtered_candidate_arr)) fixed_letters
                   filtered_candidate_arr of
              Inl e \<Rightarrow> Inl e
            | Inr arr \<Rightarrow> Inr (CandidateWords list_candidate_words, arr)))"

text \<open>
  The three filtering cells on a list of candidate words: deduplication, allowed letters,
  and the last cell.
\<close>

definition candidate_filter ::
  "letter_loc list \<Rightarrow> char list \<Rightarrow> string list \<Rightarrow> error + (printed \<times> string list)"
where
  "candidate_filter fixed_letters avail_letters candidate_words =
     (case candidate_arr_of candidate_words of
        Inl e \<Rightarrow> Inl e
      | Inr candidate_arr \<Rightarrow>
          report fixed_letters avail_letters
            (filtered_candidate_arr_of avail_letters candidate_arr))"

text \<open>
  The whole notebook, from the three inputs of its parameter cell and the word service.
\<close>

definition run ::
  "(string \<Rightarrow> string list option) \<Rightarrow> nat \<Rightarrow> letter_loc list \<Rightarrow> char list
     \<Rightarrow> error + (printed \<times> string list)"
where
  "run lookup word_length known_letters_loc avail_letters =
     (let fixed_letters = fixed_letters_of known_letters_loc;
          known_patterns = known_patterns_of word_length known_letters_loc;
          avail_letters' = avail_letters_of avail_letters known_letters_loc
      in case candidate_words_of lookup word_length known_patterns of
           Inl e \<Rightarrow> Inl e
         | Inr candidate_words \<Rightarrow>
             candidate_filter fixed_letters avail_letters' candidate_words)"

text \<open>The scenario in the notebook's parameter cell.\<close>

definition scenario_A :: "letter_loc list" where
  "scenario_A = [(CHR ''e'', 1), (CHR ''d'', 4), (CHR ''i'', -1), (CHR ''t'', -1)]"

section \<open>The pattern generator\<close>

text \<open>
  C5. For word length 5, fixed letters e at 1 and d at 4, floating letters i and t, the
  generator yields iet?d, tei?d, ie?td, te?id, ?eitd, ?etid, in this order.
\<close>

theorem known_patterns_scenario_A:
  "known_patterns_of 5 scenario_A =
     [''iet?d'', ''tei?d'', ''ie?td'', ''te?id'', ''?eitd'', ''?etid'']"
  by code_simp

end
